theory Spec2Isabelle
  imports Main "HOL-Library.Char_ord" "HOL-Library.List_Lexorder"
begin

section \<open>The data model\<close>

text \<open>
  The expression rewriter of COFFEE (\<^verbatim>\<open>rewriter.py\<close>) and the loop optimizer
  (\<^verbatim>\<open>optimizer.py\<close>) work on a mutable AST. Expressions are modelled as a
  datatype; statements and loop headers live in stores indexed by identifiers, because the
  source keys dictionaries and sets by object identity (\<^verbatim>\<open>self.exprs\<close>,
  \<^verbatim>\<open>unrolled_loops\<close>, \<^verbatim>\<open>_expr_handled\<close>); the nesting of loops is a tree.
\<close>

type_synonym loop_id = nat
type_synonym stmt_id = nat

text \<open>An entry of a symbol's rank: a loop dimension or a constant index or extent.\<close>

datatype index = Dim string | Idx int

text \<open>\<^verbatim>\<open>Symbol(symbol, rank, offset)\<close>, \<^verbatim>\<open>Par\<close>, the binary operators,
  \<^verbatim>\<open>FunCall\<close> and \<^verbatim>\<open>Neg\<close>.\<close>

datatype expr =
    Symbol string "index list" "(int \<times> int) list"
  | Par expr
  | Sum expr expr
  | Sub expr expr
  | Prod expr expr
  | Div expr expr
  | FunCall string "expr list"
  | Neg expr

text \<open>\<^verbatim>\<open>Assign\<close> and \<^verbatim>\<open>Incr\<close>: \<^verbatim>\<open>children[0]\<close> is the written symbol,
  \<^verbatim>\<open>children[1]\<close> the expression.\<close>

datatype stmt = Assign expr expr | Incr expr expr

fun lhs :: "stmt \<Rightarrow> expr" where
  "lhs (Assign l r) = l"
| "lhs (Incr l r) = l"

fun rhs :: "stmt \<Rightarrow> expr" where
  "rhs (Assign l r) = r"
| "rhs (Incr l r) = r"

fun set_rhs :: "stmt \<Rightarrow> expr \<Rightarrow> stmt" where
  "set_rhs (Assign l r) e = Assign l e"
| "set_rhs (Incr l r) e = Incr l e"

text \<open>\<^verbatim>\<open>Decl(typ, sym, init)\<close> with its \<^verbatim>\<open>scope\<close>; the symbol of a declaration
  carries extents in its rank.\<close>

datatype scope = LOCAL | EXTERNAL

record decl =
  d_typ :: string
  d_sym :: expr
  d_init :: "expr option"
  d_scope :: scope
  is_static_const :: bool

text \<open>The header of a \<^verbatim>\<open>For\<close> loop: \<^verbatim>\<open>l.dim\<close>, \<^verbatim>\<open>l.size\<close>, the step
  \<^verbatim>\<open>l.incr.children[1].symbol\<close> and \<^verbatim>\<open>l.pragma\<close>.\<close>

record for_loop =
  dim :: string
  size_l :: int
  incr :: int
  pragma :: string

text \<open>The nodes a block holds. A loop is named by its identifier and holds the children of
  its body block; a statement is named by its identifier.\<close>

datatype node =
    StmtRef stmt_id
  | DeclN decl
  | ForN loop_id "node list"
  | FlatBlock string

text \<open>A block of the AST: the parent block of the loop nest (\<^verbatim>\<open>self.header\<close>) or the
  body block of a loop (\<^verbatim>\<open>loop.children[0]\<close>).\<close>

datatype place = Header | BodyOf loop_id

text \<open>\<^verbatim>\<open>MetaExpr\<close>: the attributes of \<^verbatim>\<open>expr_info\<close> that the two files read.\<close>

record meta_expr =
  e_loops :: "loop_id list"
  e_dims :: "string list"
  e_domain :: "string list"
  loops_from_dims :: "(string \<times> loop_id) list"
  out_loop :: loop_id
  perfect_loops :: "loop_id list"
  e_parent :: place
  e_type :: string
  e_dimension :: bool

text \<open>An entry of the \<^verbatim>\<open>StmtTracker\<close> (\<^verbatim>\<open>self.hoisted\<close>): the defining expression,
  the declaration, the wrapping loop if any, and the block of insertion.\<close>

record hoist_rec =
  h_expr :: expr
  h_decl :: decl
  h_loop :: "loop_id option"
  h_place :: "place option"

text \<open>The state the optimizer and the rewriter share: the two class-level registries
  \<^verbatim>\<open>_expr_handled\<close>, the warnings printed so far, the AST (\<^verbatim>\<open>self.loop\<close> is
  \<open>root_loop\<close>, the children of \<^verbatim>\<open>self.header\<close> are \<open>header\<close>), and the fields of
  \<^verbatim>\<open>LoopOptimizer\<close>. Python 2 dictionaries are association lists; the order of
  \<open>exprs\<close> is the order in which \<^verbatim>\<open>self.exprs.items()\<close> yields the entries.\<close>

record state =
  hoister_handled :: "stmt_id list"
  expander_handled :: "stmt_id list"
  log :: "string list"
  root_loop :: loop_id
  header :: "node list"
  loops :: "loop_id \<Rightarrow> for_loop"
  stmts :: "stmt_id \<Rightarrow> stmt"
  next_loop_id :: loop_id
  next_stmt_id :: stmt_id
  decls :: "(string \<times> decl) list"
  exprs :: "(stmt_id \<times> meta_expr) list"
  hoisted :: "(string \<times> hoist_rec) list"
  expr_graph :: "(expr \<times> expr \<times> bool) list"

section \<open>Blocks of the AST\<close>

text \<open>The children of a block, and the update of a block in place.\<close>

fun children_of_loop :: "loop_id \<Rightarrow> node list \<Rightarrow> node list option" where
  "children_of_loop l [] = None"
| "children_of_loop l (ForN k body # ns) =
     (if k = l then Some body
      else (case children_of_loop l body of
              Some b \<Rightarrow> Some b
            | None \<Rightarrow> children_of_loop l ns))"
| "children_of_loop l (n # ns) = children_of_loop l ns"




section \<open>Expressions: printing, positions and replacement\<close>

text \<open>The Python exceptions the modelled code can raise.\<close>

datatype error = ValueError | KeyError | IndexError | RuntimeError | TypeError

text \<open>The classes of binary operators, and the constructor of each
  (\<^verbatim>\<open>node.__class__(a, b)\<close>).\<close>

datatype binop = OSum | OSub | OProd | ODiv

fun mk_binop :: "binop \<Rightarrow> expr \<Rightarrow> expr \<Rightarrow> expr" where
  "mk_binop OSum a b = Sum a b"
| "mk_binop OSub a b = Sub a b"
| "mk_binop OProd a b = Prod a b"
| "mk_binop ODiv a b = Div a b"

fun is_Symbol :: "expr \<Rightarrow> bool" where
  "is_Symbol (Symbol s r ofs) = True"
| "is_Symbol e = False"

fun is_Par :: "expr \<Rightarrow> bool" where
  "is_Par (Par e) = True"
| "is_Par e = False"

text \<open>\<^verbatim>\<open>node.children\<close>.\<close>

fun children :: "expr \<Rightarrow> expr list" where
  "children (Symbol s r ofs) = []"
| "children (Par e) = [e]"
| "children (Sum a b) = [a, b]"
| "children (Sub a b) = [a, b]"
| "children (Prod a b) = [a, b]"
| "children (Div a b) = [a, b]"
| "children (FunCall f args) = args"
| "children (Neg e) = [e]"

text \<open>The node with its children replaced (an assignment to \<^verbatim>\<open>node.children[i]\<close>
  in place keeps the class of the node).\<close>

fun with_children :: "expr \<Rightarrow> expr list \<Rightarrow> expr" where
  "with_children (Par e) [e'] = Par e'"
| "with_children (Sum a b) [a', b'] = Sum a' b'"
| "with_children (Sub a b) [a', b'] = Sub a' b'"
| "with_children (Prod a b) [a', b'] = Prod a' b'"
| "with_children (Div a b) [a', b'] = Div a' b'"
| "with_children (FunCall f args) args' = FunCall f args'"
| "with_children (Neg e) [e'] = Neg e'"
| "with_children e cs = e"

text \<open>The symbol references of an expression, from left to right.\<close>

fun symbol_refs :: "expr \<Rightarrow> expr list" where
  "symbol_refs (Symbol s r ofs) = [Symbol s r ofs]"
| "symbol_refs (Par e) = symbol_refs e"
| "symbol_refs (Sum a b) = symbol_refs a @ symbol_refs b"
| "symbol_refs (Sub a b) = symbol_refs a @ symbol_refs b"
| "symbol_refs (Prod a b) = symbol_refs a @ symbol_refs b"
| "symbol_refs (Div a b) = symbol_refs a @ symbol_refs b"
| "symbol_refs (FunCall f args) = concat (map symbol_refs args)"
| "symbol_refs (Neg e) = symbol_refs e"

text \<open>The number of nodes that are not symbols.\<close>

fun inner_nodes :: "expr \<Rightarrow> nat" where
  "inner_nodes (Symbol s r ofs) = 0"
| "inner_nodes (Par e) = Suc (inner_nodes e)"
| "inner_nodes (Sum a b) = Suc (inner_nodes a + inner_nodes b)"
| "inner_nodes (Sub a b) = Suc (inner_nodes a + inner_nodes b)"
| "inner_nodes (Prod a b) = Suc (inner_nodes a + inner_nodes b)"
| "inner_nodes (Div a b) = Suc (inner_nodes a + inner_nodes b)"
| "inner_nodes (FunCall f args) = Suc (sum_list (map inner_nodes args))"
| "inner_nodes (Neg e) = Suc (inner_nodes e)"

text \<open>A node of a tree is named by the indices of the children on the way to it: the model
  of the identity of a node object inside the expression of a statement.\<close>

type_synonym path = "nat list"

fun subexpr_at :: "expr \<Rightarrow> path \<Rightarrow> expr option" where
  "subexpr_at e [] = Some e"
| "subexpr_at e (i # p) =
     (if i < length (children e) then subexpr_at (children e ! i) p else None)"

subsection \<open>Printed form\<close>

text \<open>\<^verbatim>\<open>"%d" % n\<close> for a natural number and for an integer.\<close>

definition digit_char :: "nat \<Rightarrow> char" where
  "digit_char n = char_of (48 + n)"

function show_nat :: "nat \<Rightarrow> string" where
  "show_nat n = (if n < 10 then [digit_char n] else show_nat (n div 10) @ [digit_char (n mod 10)])"
  by pat_completeness auto
termination
  by (relation "measure id") auto

definition show_int :: "int \<Rightarrow> string" where
  "show_int i = (if i < 0 then CHR ''-'' # show_nat (nat (- i)) else show_nat (nat i))"

text \<open>\<^verbatim>\<open>sep.join(xs)\<close>.\<close>

fun join :: "string \<Rightarrow> string list \<Rightarrow> string" where
  "join sep [] = []"
| "join sep [x] = x"
| "join sep (x # y # ys) = x @ sep @ join sep (y # ys)"

text \<open>Modelled from the spec: \<^verbatim>\<open>str(node)\<close>, the printed form by which the spec says
  extracted subtrees are compared (``compared by their printed form''); the printer itself
  (\<^verbatim>\<open>gencode\<close> in \<^verbatim>\<open>base.py\<close>) is not among the files. A symbol prints as its name followed
  by one bracketed index per rank entry, a parenthesis as \<^verbatim>\<open>(e)\<close>, a binary node as its
  operands around the operator, a call as \<^verbatim>\<open>f(a, b)\<close>.\<close>

fun index_str :: "index \<Rightarrow> string" where
  "index_str (Dim d) = d"
| "index_str (Idx n) = show_int n"

definition point_str :: "index \<times> int \<times> int \<Rightarrow> string" where
  "point_str = (\<lambda>(r, a, b).
     if (a, b) = (1, 0) then ''['' @ index_str r @ '']''
     else ''['' @ index_str r @ ''*'' @ show_int a @ ''+'' @ show_int b @ '']'')"

fun gencode :: "expr \<Rightarrow> string" where
  "gencode (Symbol s rank offset) =
     s @ (if offset = [] then concat (map (\<lambda>r. ''['' @ index_str r @ '']'') rank)
          else concat (map point_str (zip rank offset)))"
| "gencode (Par e) = ''('' @ gencode e @ '')''"
| "gencode (Sum a b) = gencode a @ '' + '' @ gencode b"
| "gencode (Sub a b) = gencode a @ '' - '' @ gencode b"
| "gencode (Prod a b) = gencode a @ '' * '' @ gencode b"
| "gencode (Div a b) = gencode a @ '' / '' @ gencode b"
| "gencode (FunCall f args) = f @ ''('' @ join '', '' (map gencode args) @ '')''"
| "gencode (Neg e) = ''-'' @ gencode e"

subsection \<open>Dictionaries in insertion order\<close>

text \<open>\<^verbatim>\<open>d[k] = v\<close>: an existing key keeps its position.\<close>

fun dict_set :: "('k \<times> 'v) list \<Rightarrow> 'k \<Rightarrow> 'v \<Rightarrow> ('k \<times> 'v) list" where
  "dict_set [] k v = [(k, v)]"
| "dict_set ((k', v') # d) k v = (if k' = k then (k, v) # d else (k', v') # dict_set d k v)"

text \<open>\<^verbatim>\<open>d[k].append(v)\<close> on a \<^verbatim>\<open>defaultdict(list)\<close>.\<close>

fun dict_append :: "('k \<times> 'v list) list \<Rightarrow> 'k \<Rightarrow> 'v \<Rightarrow> ('k \<times> 'v list) list" where
  "dict_append [] k v = [(k, [v])]"
| "dict_append ((k', vs) # d) k v =
     (if k' = k then (k, vs @ [v]) # d else (k', vs) # dict_append d k v)"

subsection \<open>\<^verbatim>\<open>ast_replace\<close> and \<^verbatim>\<open>ast_make_expr\<close>\<close>

text \<open>Modelled from the spec: \<^verbatim>\<open>ast_replace(node, to_replace)\<close> of \<^verbatim>\<open>utils.py\<close>, which is
  not among the files. In its default mode it replaces, below \<^verbatim>\<open>node\<close>, every subtree
  whose printed form is a key of \<^verbatim>\<open>to_replace\<close> (``replacing a subtree with a leaf
  reference'') and returns how often each replacement was used. It is called on
  \<^verbatim>\<open>self.stmt.children[1]\<close> and its result is only the counts, so it can assign to the
  child slots of the nodes it visits but not to the slot of the statement that holds the
  root: the root itself is never replaced. A replaced subtree is not visited further.\<close>

fun ast_replace :: "(string \<times> expr) list \<Rightarrow> expr \<Rightarrow> expr"
  and ast_replace_child :: "(string \<times> expr) list \<Rightarrow> expr \<Rightarrow> expr" where
  "ast_replace tr (Symbol s r ofs) = Symbol s r ofs"
| "ast_replace tr (Par e) = Par (ast_replace_child tr e)"
| "ast_replace tr (Sum a b) = Sum (ast_replace_child tr a) (ast_replace_child tr b)"
| "ast_replace tr (Sub a b) = Sub (ast_replace_child tr a) (ast_replace_child tr b)"
| "ast_replace tr (Prod a b) = Prod (ast_replace_child tr a) (ast_replace_child tr b)"
| "ast_replace tr (Div a b) = Div (ast_replace_child tr a) (ast_replace_child tr b)"
| "ast_replace tr (FunCall f args) = FunCall f (map (ast_replace_child tr) args)"
| "ast_replace tr (Neg e) = Neg (ast_replace_child tr e)"
| "ast_replace_child tr n =
     (case map_of tr (gencode n) of
        Some replacing \<Rightarrow> replacing
      | None \<Rightarrow> ast_replace tr n)"

text \<open>The positions \<^verbatim>\<open>ast_replace\<close> assigns to, relative to the root.\<close>

fun replaced_paths :: "(string \<times> expr) list \<Rightarrow> expr \<Rightarrow> path list"
  and replaced_child :: "(string \<times> expr) list \<Rightarrow> nat \<Rightarrow> expr \<Rightarrow> path list"
  and replaced_args :: "(string \<times> expr) list \<Rightarrow> nat \<Rightarrow> expr list \<Rightarrow> path list" where
  "replaced_paths tr (Symbol s r ofs) = []"
| "replaced_paths tr (Par e) = replaced_child tr 0 e"
| "replaced_paths tr (Sum a b) = replaced_child tr 0 a @ replaced_child tr 1 b"
| "replaced_paths tr (Sub a b) = replaced_child tr 0 a @ replaced_child tr 1 b"
| "replaced_paths tr (Prod a b) = replaced_child tr 0 a @ replaced_child tr 1 b"
| "replaced_paths tr (Div a b) = replaced_child tr 0 a @ replaced_child tr 1 b"
| "replaced_paths tr (FunCall f args) = replaced_args tr 0 args"
| "replaced_paths tr (Neg e) = replaced_child tr 0 e"
| "replaced_child tr i n =
     (case map_of tr (gencode n) of
        Some replacing \<Rightarrow> [[i]]
      | None \<Rightarrow> map ((#) i) (replaced_paths tr n))"
| "replaced_args tr i [] = []"
| "replaced_args tr i (n # ns) = replaced_child tr i n @ replaced_args tr (Suc i) ns"

text \<open>\<^verbatim>\<open>n_replaced[str(s)]\<close>: how many positions received a replacement printing as
  \<^verbatim>\<open>str(s)\<close>.\<close>

definition n_replaced :: "(string \<times> expr) list \<Rightarrow> expr \<Rightarrow> string \<Rightarrow> nat" where
  "n_replaced tr e key =
     length (filter (\<lambda>p. case subexpr_at e p of
                            Some n \<Rightarrow> map_option gencode (map_of tr (gencode n)) = Some key
                          | None \<Rightarrow> False)
                    (replaced_paths tr e))"

text \<open>Modelled from the spec: \<^verbatim>\<open>ast_make_expr(op, nodes)\<close> of \<^verbatim>\<open>utils.py\<close>, not among the
  files: the expression that combines the nodes, in order, with the operator; a single node
  is returned as it is and no node gives \<^verbatim>\<open>None\<close>.\<close>

fun ast_make_expr :: "binop \<Rightarrow> expr list \<Rightarrow> expr option" where
  "ast_make_expr op [] = None"
| "ast_make_expr op [n] = Some n"
| "ast_make_expr op (n # ns) =
     (case ast_make_expr op ns of
        Some e \<Rightarrow> Some (mk_binop op n e)
      | None \<Rightarrow> None)"

section \<open>\<^verbatim>\<open>ExpressionRewriter\<close>: construction and entry points\<close>

text \<open>An \<^verbatim>\<open>ExpressionRewriter\<close> with its \<^verbatim>\<open>ExpressionHoister\<close> (\<^verbatim>\<open>expr_id\<close>,
  \<^verbatim>\<open>counter\<close>) and its \<^verbatim>\<open>ExpressionExpander\<close> (\<^verbatim>\<open>expr_id\<close>, \<^verbatim>\<open>expanded_decls\<close>,
  \<^verbatim>\<open>cache\<close>). The declarations, the header, the tracker and the graph it is given are
  the optimizer's own objects and stay in the state.\<close>

record rewriter =
  ew_stmt :: stmt_id
  ew_info :: meta_expr
  hoister_expr_id :: nat
  hoister_counter :: nat
  expander_expr_id :: nat
  expanded_decls :: "(string \<times> decl) list"
  expander_cache :: "(string \<times> expr) list"

text \<open>The node before which hoisted code is inserted into a block (\<^verbatim>\<open>next_loop\<close>): a loop,
  the node that was the last child of the block, or \<^verbatim>\<open>None\<close>.\<close>

datatype anchor = ALoop loop_id | ALast | ANone

text \<open>The order in which Python 2 yields the entries of a dictionary or the elements of a
  set is not fixed by the program. It is modelled as a permutation that a parameter chooses:
  \<open>pick\<close> sees the keys that are left and names the position of the one that comes next.\<close>

function arrange :: "('k list \<Rightarrow> nat) \<Rightarrow> ('a \<Rightarrow> 'k) \<Rightarrow> 'a list \<Rightarrow> 'a list" where
  "arrange pick key xs =
     (if xs = [] then []
      else (let i = pick (map key xs) mod length xs
            in xs ! i # arrange pick key (take i xs @ drop (Suc i) xs)))"
  by pat_completeness auto
termination
proof (relation "measure (\<lambda>(pick, key, xs). length xs)", goal_cases)
  case 1
  show ?case by simp
next
  case (2 pick key xs x)
  then have "x < length xs" by simp
  then show ?case by simp
qed

text \<open>What the two files call and do not define, and the bodies that lie behind the checks
  the claims are about. Each is a parameter, so that a theorem holds whatever it does:
  \<^item> \<^verbatim>\<open>is_perfect_loop(l)\<close> of \<^verbatim>\<open>utils.py\<close>, on the AST as it is;
  \<^item> \<^verbatim>\<open>visit(self.loop, self.header)['max_depth']\<close>;
  \<^item> which of several most frequent elements \<^verbatim>\<open>Counter.most_common(1)\<close> returns (in
    Python 2 that depends on the iteration order of a dictionary);
  \<^item> the part of \<^verbatim>\<open>ExpressionHoister.licm\<close> after its check of the loops
    (\<^verbatim>\<open>rewriter.py\<close>, lines 397 to 512), given \<^verbatim>\<open>nrank_tmps\<close> and \<^verbatim>\<open>outer_only\<close>;
  \<^item> \<^verbatim>\<open>ExpressionExpander.expand(should_expand)\<close> and
    \<^verbatim>\<open>ExpressionFactorizer.factorize(should_factorize)\<close>;
  \<^item> the part of \<^verbatim>\<open>CPULoopOptimizer.permute\<close> after its check (\<^verbatim>\<open>optimizer.py\<close>, lines 311
    to 321), given \<^verbatim>\<open>transpose\<close>;
  \<^item> the construction of \<^verbatim>\<open>LinearAlgebra\<close> and its \<^verbatim>\<open>transform(library)\<close>;
  \<^item> \<^verbatim>\<open>visit(self.header, None)['symbols_dep']\<close>: the loops a symbol of the AST depends on,
    \<open>None\<close> for a symbol that is not a key (symbols are told apart by their value);
  \<^item> \<^verbatim>\<open>od_find_next(a_dict, key)\<close> of \<^verbatim>\<open>utils.py\<close>, which returns a loop or \<^verbatim>\<open>None\<close>, or
    raises;
  \<^item> the iteration orders of the dictionaries keyed by dependencies (\<open>order_deps\<close>), by
    strings (\<open>order_strs\<close>) and by placements (\<open>order_infos\<close>), and of the sets of nodes
    (\<open>order_nodes\<close>); see \<open>arrange\<close>.
  A result \<open>Inl e\<close> is the exception \<open>e\<close> leaving the call.\<close>

record 'r engines =
  is_perfect_loop :: "state \<Rightarrow> loop_id \<Rightarrow> bool"
  max_depth :: "state \<Rightarrow> nat"
  most_common_tie :: "index list list \<Rightarrow> index list"
  licm_body :: "bool \<Rightarrow> bool \<Rightarrow> rewriter \<Rightarrow> state \<Rightarrow> error + rewriter \<times> state"
  expander_expand :: "(expr \<Rightarrow> bool) \<Rightarrow> rewriter \<Rightarrow> state \<Rightarrow> error + rewriter \<times> state"
  factorizer_factorize :: "(expr \<Rightarrow> bool) \<Rightarrow> rewriter \<Rightarrow> state \<Rightarrow> error + rewriter \<times> state"
  permute_body :: "bool \<Rightarrow> state \<Rightarrow> error + state"
  linear_algebra_transform :: "string \<Rightarrow> state \<Rightarrow> error + 'r option \<times> state"
  symbols_dep :: "state \<Rightarrow> expr \<Rightarrow> loop_id list option"
  od_find_next :: "(string \<times> loop_id) list \<Rightarrow> string \<Rightarrow> error + loop_id option"
  order_deps :: "string list list \<Rightarrow> nat"
  order_strs :: "string list \<Rightarrow> nat"
  order_infos :: "(string list \<times> place \<times> anchor \<times> loop_id list) list \<Rightarrow> nat"
  order_nodes :: "expr list \<Rightarrow> nat"

subsection \<open>The registries of handled expressions\<close>

text \<open>\<^verbatim>\<open>xs.index(x)\<close>, \<open>None\<close> for \<^verbatim>\<open>ValueError\<close>.\<close>

fun index_of :: "'a \<Rightarrow> 'a list \<Rightarrow> nat option" where
  "index_of x [] = None"
| "index_of x (y # ys) =
     (if y = x then Some 0 else (case index_of x ys of None \<Rightarrow> None | Some i \<Rightarrow> Some (Suc i)))"

text \<open>The \<^verbatim>\<open>try\<close> block of both constructors: the position of the statement in
  \<^verbatim>\<open>_expr_handled\<close>, after appending it if it was not there. Statements are compared by
  identity.\<close>

definition register :: "stmt_id \<Rightarrow> stmt_id list \<Rightarrow> stmt_id list \<times> nat" where
  "register s handled =
     (case index_of s handled of
        Some i \<Rightarrow> (handled, i)
      | None \<Rightarrow> (handled @ [s], length handled))"

text \<open>\<^verbatim>\<open>ExpressionRewriter(stmt, expr_info, ...)\<close>: the hoister is built first, then the
  expander.\<close>

definition new_rewriter :: "stmt_id \<Rightarrow> meta_expr \<Rightarrow> state \<Rightarrow> rewriter \<times> state" where
  "new_rewriter s info st =
     (let (hh, hid) = register s (hoister_handled st);
          (xh, xid) = register s (expander_handled st)
      in (\<lparr>ew_stmt = s, ew_info = info, hoister_expr_id = hid, hoister_counter = 0,
           expander_expr_id = xid, expanded_decls = [], expander_cache = []\<rparr>,
          st\<lparr>hoister_handled := hh, expander_handled := xh\<rparr>))"

text \<open>\<^verbatim>\<open>ExpressionRewriter.reset()\<close>.\<close>

definition reset :: "state \<Rightarrow> state" where
  "reset st = st\<lparr>hoister_handled := [], expander_handled := []\<rparr>"

subsection \<open>\<^verbatim>\<open>licm\<close>: the check of the loops\<close>

text \<open>\<^verbatim>\<open>_check_loops(loops)\<close>: every loop but the first is perfect.\<close>

definition check_loops :: "'r engines \<Rightarrow> state \<Rightarrow> loop_id list \<Rightarrow> bool" where
  "check_loops eng st ls = list_all (is_perfect_loop eng st) (tl ls)"

text \<open>\<^verbatim>\<open>ExpressionHoister.licm(nrank_tmps, outer_only)\<close>.\<close>

definition licm :: "'r engines \<Rightarrow> bool \<Rightarrow> bool \<Rightarrow> rewriter \<Rightarrow> state \<Rightarrow> error + rewriter \<times> state" where
  "licm eng nrank_tmps outer_only ew st =
     (if \<not> check_loops eng st (e_loops (ew_info ew))
      then Inr (ew, st\<lparr>log := log st @ [''Loop nest unsuitable for generalized licm. Skipping.'']\<rparr>)
      else licm_body eng nrank_tmps outer_only ew st)"

subsection \<open>\<^verbatim>\<open>expand\<close> and \<^verbatim>\<open>factorize\<close>: the choice of the strategy\<close>

text \<open>Modelled from the spec: \<^verbatim>\<open>visit(node, search=Symbol)['search'][Symbol]\<close>, the
  symbols that the external visitor finds in a subtree; the visitor is not among the files.
  These are taken to be the \<^verbatim>\<open>Symbol\<close> nodes of the expression, from left to right.\<close>

definition search_symbols :: "expr \<Rightarrow> expr list" where
  "search_symbols e = symbol_refs e"

text \<open>\<^verbatim>\<open>n.rank\<close> and \<^verbatim>\<open>n.symbol\<close> of a symbol.\<close>

fun rank_of :: "expr \<Rightarrow> index list" where
  "rank_of (Symbol s r ofs) = r"
| "rank_of e = []"

fun name_of :: "expr \<Rightarrow> string" where
  "name_of (Symbol s r ofs) = s"
| "name_of e = []"

text \<open>The first two steps of the standard strategy: the non-empty ranks, each restricted to
  the dimensions of the domain.\<close>

definition in_domain :: "string list \<Rightarrow> index \<Rightarrow> bool" where
  "in_domain domain r = (case r of Dim d \<Rightarrow> d \<in> set domain | Idx n \<Rightarrow> False)"

definition occurrences :: "meta_expr \<Rightarrow> expr list \<Rightarrow> index list list" where
  "occurrences info symbols =
     map (filter (in_domain (e_domain info)))
         (filter (\<lambda>r. r \<noteq> []) (map rank_of symbols))"

text \<open>\<^verbatim>\<open>Counter(xs).most_common(1)[0][0]\<close>: indexing the empty list that
  \<^verbatim>\<open>most_common\<close> returns for no elements raises \<^verbatim>\<open>IndexError\<close>; otherwise the result
  is an element that occurs most often.\<close>

definition most_frequent :: "'a list \<Rightarrow> 'a list" where
  "most_frequent xs =
     filter (\<lambda>x. \<forall>y \<in> set xs. count_list xs y \<le> count_list xs x) (remdups xs)"

definition most_common1 :: "(index list list \<Rightarrow> index list) \<Rightarrow> index list list \<Rightarrow> error + index list" where
  "most_common1 tie xs =
     (case most_frequent xs of
        [] \<Rightarrow> Inl IndexError
      | [x] \<Rightarrow> Inr x
      | cands \<Rightarrow> Inr (tie cands))"

text \<open>The two predicates on symbols: \<^verbatim>\<open>set(dimension).issubset(set(n.rank))\<close> and
  \<^verbatim>\<open>n.symbol in self.decls and self.decls[n.symbol].is_static_const\<close>.\<close>

definition along :: "index list \<Rightarrow> expr \<Rightarrow> bool" where
  "along dimension n = (set dimension \<subseteq> set (rank_of n))"

definition static_const :: "state \<Rightarrow> expr \<Rightarrow> bool" where
  "static_const st n =
     (case map_of (decls st) (name_of n) of
        Some d \<Rightarrow> is_static_const d
      | None \<Rightarrow> False)"

text \<open>\<^verbatim>\<open>self.decls.update(self.expr_expander.expanded_decls)\<close>.\<close>

definition update_decls :: "rewriter \<Rightarrow> state \<Rightarrow> state" where
  "update_decls ew st = st\<lparr>decls := fold (\<lambda>(k, v) d. dict_set d k v) (expanded_decls ew) (decls st)\<rparr>"

text \<open>\<^verbatim>\<open>ExpressionRewriter.expand(mode)\<close>.\<close>

definition expand :: "'r engines \<Rightarrow> string \<Rightarrow> rewriter \<Rightarrow> state \<Rightarrow> error + rewriter \<times> state" where
  "expand eng mode ew st =
     (let symbols = search_symbols (rhs (stmts st (ew_stmt ew)))
      in if mode = ''standard''
         then (case most_common1 (most_common_tie eng) (occurrences (ew_info ew) symbols) of
                 Inl e \<Rightarrow> Inl e
               | Inr dimension \<Rightarrow>
                  (case expander_expand eng (along dimension) ew st of
                     Inl e \<Rightarrow> Inl e
                   | Inr (ew', st') \<Rightarrow> Inr (ew', update_decls ew' st')))
         else if mode = ''full''
         then (case expander_expand eng (static_const st) ew st of
                 Inl e \<Rightarrow> Inl e
               | Inr (ew', st') \<Rightarrow> Inr (ew', update_decls ew' st'))
         else Inr (ew, st\<lparr>log := log st @ [''Unknown expansion strategy. Skipping.'']\<rparr>))"

text \<open>\<^verbatim>\<open>ExpressionRewriter.factorize(mode)\<close>.\<close>

definition factorize :: "'r engines \<Rightarrow> string \<Rightarrow> rewriter \<Rightarrow> state \<Rightarrow> error + rewriter \<times> state" where
  "factorize eng mode ew st =
     (let symbols = search_symbols (rhs (stmts st (ew_stmt ew)))
      in if mode = ''standard''
         then (case most_common1 (most_common_tie eng) (occurrences (ew_info ew) symbols) of
                 Inl e \<Rightarrow> Inl e
               | Inr dimension \<Rightarrow> factorizer_factorize eng (along dimension) ew st)
         else if mode = ''immutable''
         then factorizer_factorize eng (static_const st) ew st
         else Inr (ew, st\<lparr>log := log st @ [''Unknown factorization strategy. Skipping.'']\<rparr>))"

section \<open>\<^verbatim>\<open>CPULoopOptimizer.unroll\<close>\<close>







subsection \<open>What one pass over a dimension produces\<close>







text \<open>A statement \<^verbatim>\<open>A[i] += B[i]\<close> in a perfect loop over \<^verbatim>\<open>i\<close> of ten iterations and step one.\<close>

definition info_ex :: meta_expr where
  "info_ex = \<lparr>e_loops = [0], e_dims = [''i''], e_domain = [''i''], loops_from_dims = [(''i'', 0)],
     out_loop = 0, perfect_loops = [0], e_parent = BodyOf 0, e_type = ''double'', e_dimension = True\<rparr>"

definition unroll_ex :: state where
  "unroll_ex = \<lparr>hoister_handled = [], expander_handled = [], log = [], root_loop = 0,
     header = [ForN 0 [StmtRef 0]],
     loops = (\<lambda>l. \<lparr>dim = ''i'', size_l = 10, incr = 1, pragma = []\<rparr>),
     stmts = (\<lambda>s. Incr (Symbol ''A'' [Dim ''i''] []) (Symbol ''B'' [Dim ''i''] [])),
     next_loop_id = 1, next_stmt_id = 1, decls = [], exprs = [(0, info_ex)],
     hoisted = [], expr_graph = []\<rparr>"


subsection \<open>What a clone is, in the words of the claim\<close>







text \<open>A statement \<^verbatim>\<open>A[i] += B[i][k]\<close> in the perfect nest of a loop over \<^verbatim>\<open>i\<close> and a
  loop over \<^verbatim>\<open>k\<close>; only \<^verbatim>\<open>i\<close> is in its domain.\<close>

definition info_ex2 :: meta_expr where
  "info_ex2 = \<lparr>e_loops = [0, 1], e_dims = [''i'', ''k''], e_domain = [''i''],
     loops_from_dims = [(''i'', 0), (''k'', 1)],
     out_loop = 0, perfect_loops = [0, 1], e_parent = BodyOf 1, e_type = ''double'', e_dimension = True\<rparr>"

definition unroll_ex2 :: state where
  "unroll_ex2 = \<lparr>hoister_handled = [], expander_handled = [], log = [], root_loop = 0,
     header = [ForN 0 [ForN 1 [StmtRef 0]]],
     loops = (\<lambda>l. \<lparr>dim = (if l = 0 then ''i'' else ''k''), size_l = 10, incr = 1, pragma = []\<rparr>),
     stmts = (\<lambda>s. Incr (Symbol ''A'' [Dim ''i''] []) (Symbol ''B'' [Dim ''i'', Dim ''k''] [])),
     next_loop_id = 2, next_stmt_id = 1, decls = [], exprs = [(0, info_ex2)],
     hoisted = [], expr_graph = []\<rparr>"

section \<open>\<^verbatim>\<open>LoopOptimizer.rewrite\<close>, \<^verbatim>\<open>permute\<close> and \<^verbatim>\<open>blas\<close>\<close>

text \<open>The body of the loop of \<^verbatim>\<open>rewrite(level)\<close> for one statement. The keyword arguments
  of the two calls of \<^verbatim>\<open>ew.licm\<close> name neither \<^verbatim>\<open>nrank_tmps\<close> nor \<^verbatim>\<open>outer_only\<close>, so
  both are \<^verbatim>\<open>None\<close>; \<^verbatim>\<open>expand\<close> and \<^verbatim>\<open>factorize\<close> run in their default mode.\<close>

definition rewrite_expr :: "'r engines \<Rightarrow> int \<Rightarrow> stmt_id \<times> meta_expr \<Rightarrow> state \<Rightarrow> error + state" where
  "rewrite_expr eng level = (\<lambda>(s, info) st.
     (let (ew, st0) = new_rewriter s info st
      in case (if level > 0 then licm eng False False ew st0 else Inr (ew, st0)) of
           Inl e \<Rightarrow> Inl e
         | Inr (ew1, st1) \<Rightarrow>
            if level > 1 \<and> e_dimension info
            then (case expand eng ''standard'' ew1 st1 of
                    Inl e \<Rightarrow> Inl e
                  | Inr (ew2, st2) \<Rightarrow>
                     (case factorize eng ''standard'' ew2 st2 of
                        Inl e \<Rightarrow> Inl e
                      | Inr (ew3, st3) \<Rightarrow>
                         (case licm eng False False ew3 st3 of
                            Inl e \<Rightarrow> Inl e
                          | Inr (ew4, st4) \<Rightarrow> Inr st4)))
            else Inr st1))"

fun rewrite_loop :: "'r engines \<Rightarrow> int \<Rightarrow> (stmt_id \<times> meta_expr) list \<Rightarrow> state \<Rightarrow> error + state" where
  "rewrite_loop eng level [] st = Inr st"
| "rewrite_loop eng level (x # xs) st =
     (case rewrite_expr eng level x st of
        Inl e \<Rightarrow> Inl e
      | Inr st' \<Rightarrow> rewrite_loop eng level xs st')"

text \<open>\<^verbatim>\<open>LoopOptimizer.rewrite(level)\<close>.\<close>

definition rewrite :: "'r engines \<Rightarrow> int \<Rightarrow> state \<Rightarrow> error + state" where
  "rewrite eng level st = rewrite_loop eng level (exprs st) (reset st)"

text \<open>\<^verbatim>\<open>CPULoopOptimizer.permute(transpose)\<close>.\<close>

definition permute :: "'r engines \<Rightarrow> bool \<Rightarrow> state \<Rightarrow> error + state" where
  "permute eng do_transpose st =
     (if \<not> is_perfect_loop eng st (root_loop st) then Inr st
      else permute_body eng do_transpose st)"

text \<open>\<^verbatim>\<open>CPULoopOptimizer.blas(library)\<close>: the value returned (\<open>None\<close> for a plain
  \<^verbatim>\<open>return\<close>) and the state.\<close>

definition blas :: "'r engines \<Rightarrow> string \<Rightarrow> state \<Rightarrow> error + 'r option \<times> state" where
  "blas eng library st =
     (if max_depth eng st \<noteq> 3 then Inr (None, st)
      else linear_algebra_transform eng library st)"


section \<open>Examples\<close>

text \<open>Modelled from the spec: a loop is perfect when its body has no statement besides the
  nested loop (``no leading/trailing statements besides nested loops''); \<^verbatim>\<open>is_perfect_loop\<close>
  of \<^verbatim>\<open>utils.py\<close> is not among the files. A body is perfect when it is one loop with a
  perfect body, or holds no loop at all.\<close>

fun perfect_body :: "node list \<Rightarrow> bool" where
  "perfect_body [ForN k b] = perfect_body b"
| "perfect_body ns = list_all (\<lambda>n. case n of ForN k b \<Rightarrow> False | _ \<Rightarrow> True) ns"

text \<open>Modelled from the spec: the depth of a loop nest, the greatest number of loops around a
  node, for \<^verbatim>\<open>visit(self.loop, self.header)['max_depth']\<close>.\<close>

fun depth_node :: "node \<Rightarrow> nat" and depth_nodes :: "node list \<Rightarrow> nat" where
  "depth_node (ForN k b) = Suc (depth_nodes b)"
| "depth_node (StmtRef s) = 0"
| "depth_node (DeclN d) = 0"
| "depth_node (FlatBlock t) = 0"
| "depth_nodes [] = 0"
| "depth_nodes (n # ns) = max (depth_node n) (depth_nodes ns)"

text \<open>Modelled from the spec: the loops a symbol depends on are the loops of the AST over
  the dimensions it is indexed with (``dependency = the dimensions it is indexed over''),
  from the outermost to the innermost; the visitor is not among the files.\<close>

fun loops_of_node :: "node \<Rightarrow> loop_id list" and loops_of_nodes :: "node list \<Rightarrow> loop_id list" where
  "loops_of_node (ForN k b) = k # loops_of_nodes b"
| "loops_of_node (StmtRef s) = []"
| "loops_of_node (DeclN d) = []"
| "loops_of_node (FlatBlock t) = []"
| "loops_of_nodes [] = []"
| "loops_of_nodes (n # ns) = loops_of_node n @ loops_of_nodes ns"

definition rank_loops :: "state \<Rightarrow> expr \<Rightarrow> loop_id list option" where
  "rank_loops st s =
     Some (filter (\<lambda>l. Dim (dim (loops st l)) \<in> set (rank_of s)) (loops_of_nodes (header st)))"

text \<open>For the examples, \<^verbatim>\<open>od_find_next\<close> is the value that follows the key in the ordered
  dictionary, \<^verbatim>\<open>None\<close> after the last key.\<close>

fun find_next :: "(string \<times> loop_id) list \<Rightarrow> string \<Rightarrow> error + loop_id option" where
  "find_next [] key = Inl ValueError"
| "find_next [(k, v)] key = (if k = key then Inr None else Inl ValueError)"
| "find_next ((k, v) # (k', v') # d) key =
     (if k = key then Inr (Some v') else find_next ((k', v') # d) key)"

text \<open>An instance of the parameters for the examples: perfection, depth, dependencies and
  \<^verbatim>\<open>od_find_next\<close> as above, the first of several most frequent ranks, dictionaries and
  sets in the order of insertion, and bodies that change nothing.\<close>

definition example_engines :: "nat engines" where
  "example_engines =
     \<lparr>is_perfect_loop = (\<lambda>st l. case children_of_loop l (header st) of
                                   Some b \<Rightarrow> perfect_body b | None \<Rightarrow> False),
      max_depth = (\<lambda>st. depth_nodes (header st)),
      most_common_tie = hd,
      licm_body = (\<lambda>nrank_tmps outer_only ew st. Inr (ew, st)),
      expander_expand = (\<lambda>should_expand ew st. Inr (ew, st)),
      factorizer_factorize = (\<lambda>should_factorize ew st. Inr (ew, st)),
      permute_body = (\<lambda>do_transpose st. Inr st),
      linear_algebra_transform = (\<lambda>library st. Inr (None, st)),
      symbols_dep = rank_loops,
      od_find_next = find_next,
      order_deps = (\<lambda>keys. 0),
      order_strs = (\<lambda>keys. 0),
      order_infos = (\<lambda>keys. 0),
      order_nodes = (\<lambda>keys. 0)\<rparr>"

text \<open>A nest \<open>i\<close>, \<open>j\<close>, \<open>k\<close> of depth three in which the loop over \<open>j\<close> is not perfect:
  the statement \<^verbatim>\<open>t = C[j]\<close> precedes the loop over \<open>k\<close>, whose body is
  \<^verbatim>\<open>A[i][j] += B[i][k] * t\<close>.\<close>

definition imperfect_info :: meta_expr where
  "imperfect_info = \<lparr>e_loops = [0, 1, 2], e_dims = [''i'', ''j'', ''k''], e_domain = [''i'', ''j''],
     loops_from_dims = [(''i'', 0), (''j'', 1), (''k'', 2)],
     out_loop = 0, perfect_loops = [2], e_parent = BodyOf 2, e_type = ''double'', e_dimension = True\<rparr>"

definition imperfect_ex :: state where
  "imperfect_ex = \<lparr>hoister_handled = [], expander_handled = [], log = [], root_loop = 0,
     header = [ForN 0 [ForN 1 [StmtRef 1, ForN 2 [StmtRef 0]]]],
     loops = (\<lambda>l. \<lparr>dim = (if l = 0 then ''i'' else if l = 1 then ''j'' else ''k''),
                    size_l = 10, incr = 1, pragma = []\<rparr>),
     stmts = (\<lambda>s. if s = 0
                   then Incr (Symbol ''A'' [Dim ''i'', Dim ''j''] [])
                          (Prod (Symbol ''B'' [Dim ''i'', Dim ''k''] []) (Symbol ''t'' [] []))
                   else Assign (Symbol ''t'' [] []) (Symbol ''C'' [Dim ''j''] [])),
     next_loop_id = 3, next_stmt_id = 2, decls = [], exprs = [(0, imperfect_info)],
     hoisted = [], expr_graph = []\<rparr>"

definition imperfect_ew :: rewriter where
  "imperfect_ew = \<lparr>ew_stmt = 0, ew_info = imperfect_info, hoister_expr_id = 0, hoister_counter = 0,
     expander_expr_id = 0, expanded_decls = [], expander_cache = []\<rparr>"

text \<open>The loop of \<open>unroll_ex\<close> around the statement \<^verbatim>\<open>a += b * c\<close>, in which no symbol has a
  rank, and a rewriter for the statement \<open>0\<close> of a state.\<close>

definition scalar_ex :: state where
  "scalar_ex = unroll_ex\<lparr>stmts :=
     (\<lambda>s. Incr (Symbol ''a'' [] []) (Prod (Symbol ''b'' [] []) (Symbol ''c'' [] [])))\<rparr>"

definition plain_ew :: rewriter where
  "plain_ew = \<lparr>ew_stmt = 0, ew_info = info_ex, hoister_expr_id = 0, hoister_counter = 0,
     expander_expr_id = 0, expanded_decls = [], expander_cache = []\<rparr>"


section \<open>The standard strategy of \<^verbatim>\<open>expand\<close> and \<^verbatim>\<open>factorize\<close>\<close>

lemma most_frequent_Nil: "most_frequent [] = []"
  by (simp add: most_frequent_def)

lemma most_frequent_nonempty:
  assumes "xs \<noteq> []"
  shows "most_frequent xs \<noteq> []"
proof -
  let ?S = "count_list xs ` set xs"
  have fin: "finite ?S" and ne: "?S \<noteq> {}" using assms by auto
  from Max_in[OF fin ne] obtain x where x: "x \<in> set xs" and m: "count_list xs x = Max ?S"
    by auto
  have "\<forall>y \<in> set xs. count_list xs y \<le> count_list xs x"
    using Max_ge[OF fin] m by auto
  with x have "x \<in> set (most_frequent xs)"
    by (simp add: most_frequent_def)
  then show ?thesis by auto
qed

lemma most_common1_Nil: "most_common1 tie [] = Inl IndexError"
  by (simp add: most_common1_def most_frequent_Nil)

lemma most_common1_nonempty:
  "xs \<noteq> [] \<Longrightarrow> \<exists>dimension. most_common1 tie xs = Inr dimension"
  using most_frequent_nonempty[of xs]
  by (cases "most_frequent xs" rule: list.exhaust; cases "tl (most_frequent xs)")
     (auto simp: most_common1_def split: list.splits)

lemma occurrences_empty_iff:
  "occurrences info symbols = [] \<longleftrightarrow> (\<forall>s \<in> set symbols. rank_of s = [])"
  by (auto simp: occurrences_def filter_empty_conv)

text \<open>
  Claim C9. When no symbol of the right-hand side of the statement has a nonempty rank,
  \<^verbatim>\<open>expand('standard')\<close> and \<^verbatim>\<open>factorize('standard')\<close> both raise \<^verbatim>\<open>IndexError\<close>: the list
  of occurrences is empty, \<^verbatim>\<open>most_common(1)\<close> of it is empty, and its first element is
  indexed. This is the only way the choice of the dimension fails: as soon as one symbol has
  a nonempty rank a dimension is chosen, and both calls go on to the expander and to the
  factorizer with the predicate built from it. A mode that is not known does not raise: it
  leaves the rewriter and the state as they are and emits a warning. So the entry points are
  not total in the standard mode, at every state and whatever the expander, the factorizer
  and the tie-break do.
\<close>

theorem standard_mode_raises:
  "((\<forall>s \<in> set (symbol_refs (rhs (stmts st (ew_stmt ew)))). rank_of s = []) \<longrightarrow>
      expand eng ''standard'' ew st = Inl IndexError \<and>
      factorize eng ''standard'' ew st = Inl IndexError) \<and>
   ((\<exists>s \<in> set (symbol_refs (rhs (stmts st (ew_stmt ew)))). rank_of s \<noteq> []) \<longrightarrow>
      (\<exists>dimension.
         expand eng ''standard'' ew st =
           (case expander_expand eng (along dimension) ew st of
              Inl e \<Rightarrow> Inl e
            | Inr (ew', st') \<Rightarrow> Inr (ew', update_decls ew' st')) \<and>
         factorize eng ''standard'' ew st = factorizer_factorize eng (along dimension) ew st)) \<and>
   (mode \<noteq> ''standard'' \<and> mode \<noteq> ''full'' \<longrightarrow>
      expand eng mode ew st =
        Inr (ew, st\<lparr>log := log st @ [''Unknown expansion strategy. Skipping.'']\<rparr>)) \<and>
   (mode \<noteq> ''standard'' \<and> mode \<noteq> ''immutable'' \<longrightarrow>
      factorize eng mode ew st =
        Inr (ew, st\<lparr>log := log st @ [''Unknown factorization strategy. Skipping.'']\<rparr>))"
proof (intro conjI impI)
  assume a: "\<forall>s \<in> set (symbol_refs (rhs (stmts st (ew_stmt ew)))). rank_of s = []"
  then have o: "occurrences (ew_info ew) (symbol_refs (rhs (stmts st (ew_stmt ew)))) = []"
    by (simp add: occurrences_empty_iff)
  show "expand eng ''standard'' ew st = Inl IndexError"
    by (simp add: expand_def search_symbols_def o most_common1_Nil)
  show "factorize eng ''standard'' ew st = Inl IndexError"
    by (simp add: factorize_def search_symbols_def o most_common1_Nil)
next
  assume "\<exists>s \<in> set (symbol_refs (rhs (stmts st (ew_stmt ew)))). rank_of s \<noteq> []"
  then have "occurrences (ew_info ew) (symbol_refs (rhs (stmts st (ew_stmt ew)))) \<noteq> []"
    by (simp add: occurrences_empty_iff)
  from most_common1_nonempty[OF this, of "most_common_tie eng"] obtain dimension where
    d: "most_common1 (most_common_tie eng)
          (occurrences (ew_info ew) (symbol_refs (rhs (stmts st (ew_stmt ew))))) = Inr dimension"
    by blast
  show "\<exists>dimension.
         expand eng ''standard'' ew st =
           (case expander_expand eng (along dimension) ew st of
              Inl e \<Rightarrow> Inl e
            | Inr (ew', st') \<Rightarrow> Inr (ew', update_decls ew' st')) \<and>
         factorize eng ''standard'' ew st = factorizer_factorize eng (along dimension) ew st"
    by (rule exI[of _ dimension]) (simp add: expand_def factorize_def search_symbols_def d)
next
  assume "mode \<noteq> ''standard'' \<and> mode \<noteq> ''full''"
  then show "expand eng mode ew st =
        Inr (ew, st\<lparr>log := log st @ [''Unknown expansion strategy. Skipping.'']\<rparr>)"
    by (simp add: expand_def)
next
  assume "mode \<noteq> ''standard'' \<and> mode \<noteq> ''immutable''"
  then show "factorize eng mode ew st =
        Inr (ew, st\<lparr>log := log st @ [''Unknown factorization strategy. Skipping.'']\<rparr>)"
    by (simp add: factorize_def)
qed

text \<open>
  Claim C9 at concrete inputs: \<^verbatim>\<open>a += b * c\<close> makes both calls raise; \<^verbatim>\<open>A[i] += B[i]\<close>
  reaches the factorizer; the unknown mode \<^verbatim>\<open>fast\<close> only warns.
\<close>

theorem standard_mode_raises_witness:
  "map rank_of (symbol_refs (rhs (stmts scalar_ex (ew_stmt plain_ew)))) = [[], []] \<and>
   expand example_engines ''standard'' plain_ew scalar_ex = Inl IndexError \<and>
   factorize example_engines ''standard'' plain_ew scalar_ex = Inl IndexError \<and>
   (\<exists>s \<in> set (symbol_refs (rhs (stmts unroll_ex (ew_stmt plain_ew)))). rank_of s \<noteq> []) \<and>
   (\<exists>dimension. factorize example_engines ''standard'' plain_ew unroll_ex =
        factorizer_factorize example_engines (along dimension) plain_ew unroll_ex) \<and>
   ''fast'' \<noteq> ''standard'' \<and> ''fast'' \<noteq> ''full'' \<and> ''fast'' \<noteq> ''immutable'' \<and>
   expand example_engines ''fast'' plain_ew scalar_ex =
     Inr (plain_ew, scalar_ex\<lparr>log := log scalar_ex @ [''Unknown expansion strategy. Skipping.'']\<rparr>) \<and>
   factorize example_engines ''fast'' plain_ew scalar_ex =
     Inr (plain_ew, scalar_ex\<lparr>log := log scalar_ex @ [''Unknown factorization strategy. Skipping.'']\<rparr>)"
proof -
  have a0: "map rank_of (symbol_refs (rhs (stmts scalar_ex (ew_stmt plain_ew)))) = [[], []]"
    by (simp add: scalar_ex_def plain_ew_def)
  have a: "\<forall>s \<in> set (symbol_refs (rhs (stmts scalar_ex (ew_stmt plain_ew)))). rank_of s = []"
    by (simp add: scalar_ex_def plain_ew_def)
  have b: "\<exists>s \<in> set (symbol_refs (rhs (stmts unroll_ex (ew_stmt plain_ew)))). rank_of s \<noteq> []"
    by (simp add: unroll_ex_def plain_ew_def)
  have m: "''fast'' \<noteq> ''standard'' \<and> ''fast'' \<noteq> ''full''" "''fast'' \<noteq> ''standard'' \<and> ''fast'' \<noteq> ''immutable''"
    by simp_all
  note t1 = standard_mode_raises[where st = scalar_ex and ew = plain_ew and eng = example_engines
      and mode = "''fast''"]
  note t2 = standard_mode_raises[where st = unroll_ex and ew = plain_ew and eng = example_engines
      and mode = "''fast''"]
  have 1: "expand example_engines ''standard'' plain_ew scalar_ex = Inl IndexError \<and>
      factorize example_engines ''standard'' plain_ew scalar_ex = Inl IndexError"
    by (rule t1[THEN conjunct1, THEN mp, OF a])
  have 2: "\<exists>dimension. factorize example_engines ''standard'' plain_ew unroll_ex =
        factorizer_factorize example_engines (along dimension) plain_ew unroll_ex"
    using t2[THEN conjunct2, THEN conjunct1, THEN mp, OF b] by blast
  have 3: "expand example_engines ''fast'' plain_ew scalar_ex =
     Inr (plain_ew, scalar_ex\<lparr>log := log scalar_ex @ [''Unknown expansion strategy. Skipping.'']\<rparr>)"
    by (rule t1[THEN conjunct2, THEN conjunct2, THEN conjunct1, THEN mp, OF m(1)])
  have 4: "factorize example_engines ''fast'' plain_ew scalar_ex =
     Inr (plain_ew, scalar_ex\<lparr>log := log scalar_ex @ [''Unknown factorization strategy. Skipping.'']\<rparr>)"
    by (rule t1[THEN conjunct2, THEN conjunct2, THEN conjunct2, THEN mp, OF m(2)])
  from a0 1 b 2 m 3 4 show ?thesis by blast
qed
section \<open>Proofs: \<^verbatim>\<open>CPULoopOptimizer.unroll\<close>\<close>



































section \<open>\<^verbatim>\<open>rewrite\<close> and the registries of handled expressions\<close>

lemma index_of_None: "index_of x xs = None \<longleftrightarrow> x \<notin> set xs"
  by (induction xs) (auto split: option.splits)

lemma register_new: "s \<notin> set handled \<Longrightarrow> register s handled = (handled @ [s], length handled)"
  by (simp add: register_def index_of_None[THEN iffD2])

lemma reset_registries:
  "reset (st\<lparr>hoister_handled := h, expander_handled := x\<rparr>) = reset st"
  by (simp add: reset_def)

lemma rewrite_loop_level0:
  assumes "level \<le> 0" and "distinct (hh @ map fst xs)"
    and "hoister_handled st = hh" and "expander_handled st = hh"
  shows "rewrite_loop eng level xs st =
           Inr (st\<lparr>hoister_handled := hh @ map fst xs, expander_handled := hh @ map fst xs\<rparr>)"
  using assms
proof (induction xs arbitrary: st hh)
  case Nil
  then show ?case by simp
next
  case (Cons x xs)
  obtain s info where x: "x = (s, info)" by (cases x)
  have s: "s \<notin> set hh" using Cons.prems(2) x by simp
  define st1 where "st1 = st\<lparr>hoister_handled := hh @ [s], expander_handled := hh @ [s]\<rparr>"
  have step: "rewrite_expr eng level (s, info) st = Inr st1"
    using Cons.prems(1,3,4) s
    by (simp add: rewrite_expr_def new_rewriter_def register_new st1_def)
  have d: "distinct ((hh @ [s]) @ map fst xs)" using Cons.prems(2) x by simp
  have "rewrite_loop eng level xs st1 =
      Inr (st1\<lparr>hoister_handled := (hh @ [s]) @ map fst xs,
               expander_handled := (hh @ [s]) @ map fst xs\<rparr>)"
    by (rule Cons.IH[OF Cons.prems(1) d]) (simp_all add: st1_def)
  then show ?case by (simp add: x step st1_def)
qed

text \<open>
  Claim C10. \<^verbatim>\<open>LoopOptimizer.rewrite(level)\<close> clears both registries
  \<^verbatim>\<open>ExpressionHoister._expr_handled\<close> and \<^verbatim>\<open>ExpressionExpander._expr_handled\<close> before it
  looks at any expression, at every level: what the registries held before the call has no
  influence on its result; the rewriter of the first expression is built on empty
  registries, so both its expression identifiers are \<open>0\<close> and the registries then hold that
  statement alone; and at a level of \<open>0\<close> or less, where nothing else is done, a call on
  distinct statements returns the state with both registries holding exactly the statements
  of this call, in order, so that the identifier of each is its position in this call.
\<close>

theorem rewrite_resets_registries:
  "rewrite eng level (st\<lparr>hoister_handled := h, expander_handled := x\<rparr>) = rewrite eng level st \<and>
   hoister_handled (reset st) = [] \<and> expander_handled (reset st) = [] \<and>
   (exprs st = (s, info) # rest \<longrightarrow>
      hoister_expr_id (fst (new_rewriter s info (reset st))) = 0 \<and>
      expander_expr_id (fst (new_rewriter s info (reset st))) = 0 \<and>
      hoister_handled (snd (new_rewriter s info (reset st))) = [s] \<and>
      expander_handled (snd (new_rewriter s info (reset st))) = [s] \<and>
      rewrite eng level st =
        (case rewrite_expr eng level (s, info) (reset st) of
           Inl e \<Rightarrow> Inl e
         | Inr st' \<Rightarrow> rewrite_loop eng level rest st')) \<and>
   (level \<le> 0 \<and> distinct (map fst (exprs st)) \<longrightarrow>
      rewrite eng level st =
        Inr (st\<lparr>hoister_handled := map fst (exprs st), expander_handled := map fst (exprs st)\<rparr>))"
proof (intro conjI impI)
  show "rewrite eng level (st\<lparr>hoister_handled := h, expander_handled := x\<rparr>) = rewrite eng level st"
    by (simp add: rewrite_def reset_registries)
  show "hoister_handled (reset st) = []" "expander_handled (reset st) = []"
    by (simp_all add: reset_def)
next
  assume e: "exprs st = (s, info) # rest"
  show "hoister_expr_id (fst (new_rewriter s info (reset st))) = 0"
       "expander_expr_id (fst (new_rewriter s info (reset st))) = 0"
       "hoister_handled (snd (new_rewriter s info (reset st))) = [s]"
       "expander_handled (snd (new_rewriter s info (reset st))) = [s]"
    by (simp_all add: new_rewriter_def reset_def register_def)
  show "rewrite eng level st =
        (case rewrite_expr eng level (s, info) (reset st) of
           Inl e \<Rightarrow> Inl e
         | Inr st' \<Rightarrow> rewrite_loop eng level rest st')"
    by (simp add: rewrite_def e)
next
  assume a: "level \<le> 0 \<and> distinct (map fst (exprs st))"
  have "rewrite_loop eng level (exprs st) (reset st) =
          Inr ((reset st)\<lparr>hoister_handled := [] @ map fst (exprs st),
                          expander_handled := [] @ map fst (exprs st)\<rparr>)"
    using a by (intro rewrite_loop_level0) (simp_all add: reset_def)
  then show "rewrite eng level st =
        Inr (st\<lparr>hoister_handled := map fst (exprs st), expander_handled := map fst (exprs st)\<rparr>)"
    by (simp add: rewrite_def reset_def)
qed

text \<open>
  Claim C10 at a concrete input: registries left at \<open>[5, 7]\<close> and \<open>[3]\<close> by earlier calls
  are gone after \<^verbatim>\<open>rewrite(0)\<close> of one statement, which has identifier \<open>0\<close>.
\<close>

theorem rewrite_resets_registries_witness:
  "exprs unroll_ex2 = (0, info_ex2) # [] \<and> (0::int) \<le> 0 \<and> distinct (map fst (exprs unroll_ex2)) \<and>
   rewrite example_engines 0 (unroll_ex2\<lparr>hoister_handled := [5, 7], expander_handled := [3]\<rparr>) =
     Inr (unroll_ex2\<lparr>hoister_handled := [0], expander_handled := [0]\<rparr>) \<and>
   hoister_expr_id (fst (new_rewriter 0 info_ex2 (reset unroll_ex2))) = 0"
proof -
  have e: "exprs unroll_ex2 = (0, info_ex2) # []" by (simp add: unroll_ex2_def)
  have d: "(0::int) \<le> 0 \<and> distinct (map fst (exprs unroll_ex2))" by (simp add: e)
  note t = rewrite_resets_registries[where eng = example_engines and level = 0 and st = unroll_ex2
      and h = "[5, 7]" and x = "[3]" and s = 0 and info = info_ex2 and rest = "[]"]
  have 1: "rewrite example_engines 0 (unroll_ex2\<lparr>hoister_handled := [5, 7], expander_handled := [3]\<rparr>) =
     Inr (unroll_ex2\<lparr>hoister_handled := [0], expander_handled := [0]\<rparr>)"
  proof -
    have r1: "rewrite example_engines 0 (unroll_ex2\<lparr>hoister_handled := [5, 7], expander_handled := [3]\<rparr>) =
        rewrite example_engines 0 unroll_ex2"
      by (rule t[THEN conjunct1])
    have r2: "rewrite example_engines 0 unroll_ex2 =
        Inr (unroll_ex2\<lparr>hoister_handled := map fst (exprs unroll_ex2),
                         expander_handled := map fst (exprs unroll_ex2)\<rparr>)"
      by (rule t[THEN conjunct2, THEN conjunct2, THEN conjunct2, THEN conjunct2, THEN mp, OF d])
    show ?thesis unfolding r1 r2 by (simp add: e)
  qed
  have 2: "hoister_expr_id (fst (new_rewriter 0 info_ex2 (reset unroll_ex2))) = 0"
    using t e by blast
  from e d 1 2 show ?thesis by blast
qed

section \<open>Preconditions that are not met\<close>

text \<open>
  Claim C2. When some loop of the nest other than the outermost is not perfect,
  \<^verbatim>\<open>ExpressionHoister.licm\<close> returns normally and leaves the rewriter and the whole state
  (statements, declarations, header, tracker of hoisted expressions, dependency graph) as
  they were; only the warning is emitted. When the outermost loop is not perfect,
  \<^verbatim>\<open>CPULoopOptimizer.permute\<close> returns normally with the state unchanged, and when the depth
  of the nest is not \<open>3\<close>, \<^verbatim>\<open>CPULoopOptimizer.blas\<close> returns \<^verbatim>\<open>None\<close> with the state
  unchanged. In each case the check is also the only thing in the way: when it passes, the
  call is the transformation behind it.
\<close>

theorem precondition_failures_are_noops:
  "(\<not> list_all (is_perfect_loop eng st) (tl (e_loops (ew_info ew))) \<longrightarrow>
      licm eng nrank_tmps outer_only ew st =
        Inr (ew, st\<lparr>log := log st @ [''Loop nest unsuitable for generalized licm. Skipping.'']\<rparr>)) \<and>
   (list_all (is_perfect_loop eng st) (tl (e_loops (ew_info ew))) \<longrightarrow>
      licm eng nrank_tmps outer_only ew st = licm_body eng nrank_tmps outer_only ew st) \<and>
   (\<not> is_perfect_loop eng st (root_loop st) \<longrightarrow> permute eng do_transpose st = Inr st) \<and>
   (is_perfect_loop eng st (root_loop st) \<longrightarrow>
      permute eng do_transpose st = permute_body eng do_transpose st) \<and>
   (max_depth eng st \<noteq> 3 \<longrightarrow> blas eng library st = Inr (None, st)) \<and>
   (max_depth eng st = 3 \<longrightarrow> blas eng library st = linear_algebra_transform eng library st)"
  by (simp add: licm_def check_loops_def permute_def blas_def)

text \<open>
  Claim C2 at concrete inputs: the nest \<open>i\<close>, \<open>j\<close>, \<open>k\<close> with a statement before the loop
  over \<open>k\<close> (for \<^verbatim>\<open>licm\<close> and \<^verbatim>\<open>permute\<close>) and a perfect nest of depth two (for
  \<^verbatim>\<open>blas\<close>); the checks pass on the perfect nest and on the depth of the first.
\<close>

theorem precondition_failures_are_noops_witness:
  "\<not> list_all (is_perfect_loop example_engines imperfect_ex) (tl (e_loops (ew_info imperfect_ew))) \<and>
   licm example_engines False False imperfect_ew imperfect_ex =
     Inr (imperfect_ew,
          imperfect_ex\<lparr>log := [''Loop nest unsuitable for generalized licm. Skipping.'']\<rparr>) \<and>
   \<not> is_perfect_loop example_engines imperfect_ex (root_loop imperfect_ex) \<and>
   permute example_engines True imperfect_ex = Inr imperfect_ex \<and>
   max_depth example_engines unroll_ex2 \<noteq> 3 \<and>
   blas example_engines ''mkl'' unroll_ex2 = Inr (None, unroll_ex2) \<and>
   list_all (is_perfect_loop example_engines unroll_ex2) (tl (e_loops info_ex2)) \<and>
   is_perfect_loop example_engines unroll_ex2 (root_loop unroll_ex2) \<and>
   max_depth example_engines imperfect_ex = 3"
proof -
  have a: "\<not> list_all (is_perfect_loop example_engines imperfect_ex) (tl (e_loops (ew_info imperfect_ew)))"
    by (simp add: example_engines_def imperfect_ex_def imperfect_ew_def imperfect_info_def)
  have b: "\<not> is_perfect_loop example_engines imperfect_ex (root_loop imperfect_ex)"
    by (simp add: example_engines_def imperfect_ex_def)
  have c: "max_depth example_engines unroll_ex2 \<noteq> 3"
    by (simp add: example_engines_def unroll_ex2_def)
  have d: "list_all (is_perfect_loop example_engines unroll_ex2) (tl (e_loops info_ex2))"
       "is_perfect_loop example_engines unroll_ex2 (root_loop unroll_ex2)"
       "max_depth example_engines imperfect_ex = 3"
    by (simp_all add: example_engines_def unroll_ex2_def info_ex2_def imperfect_ex_def)
  have l: "log imperfect_ex = []" by (simp add: imperfect_ex_def)
  note t1 = precondition_failures_are_noops[where eng = example_engines and st = imperfect_ex
      and ew = imperfect_ew and nrank_tmps = False and outer_only = False and do_transpose = True
      and library = "''mkl''"]
  note t2 = precondition_failures_are_noops[where eng = example_engines and st = unroll_ex2
      and ew = imperfect_ew and nrank_tmps = False and outer_only = False and do_transpose = True
      and library = "''mkl''"]
  have 1: "licm example_engines False False imperfect_ew imperfect_ex =
     Inr (imperfect_ew,
          imperfect_ex\<lparr>log := [''Loop nest unsuitable for generalized licm. Skipping.'']\<rparr>)"
    using t1 a by (simp add: l)
  have 2: "permute example_engines True imperfect_ex = Inr imperfect_ex"
    using t1 b by blast
  have 3: "blas example_engines ''mkl'' unroll_ex2 = Inr (None, unroll_ex2)"
    using t2 c by blast
  from a 1 b 2 c 3 d show ?thesis by blast
qed

end
